theory Spec2Isabelle
  imports Main "HOL-Library.Word" "HOL-Library.Sublist"
begin

section \<open>Values of the JavaScript program\<close>

text \<open>
  A \<^verbatim>\<open>Buffer\<close> or \<^verbatim>\<open>Uint8Array\<close> is a list of bytes. A value that may be
  \<^verbatim>\<open>undefined\<close> is an \<open>option\<close>, with \<open>None\<close> for \<^verbatim>\<open>undefined\<close>.
\<close>

type_synonym bytes = "8 word list"

text \<open>
  What a \<^verbatim>\<open>throw\<close> or a rejected promise carries. \<open>ConnectorNotLedgerError\<close> and
  \<open>ConnectorNotFoundError\<close> are the error classes of the repository, \<open>Error m\<close> is
  \<^verbatim>\<open>new Error(m)\<close> (or \<^verbatim>\<open>Error(m)\<close>), \<open>TypeError m\<close> is what the runtime throws when a
  property of \<^verbatim>\<open>undefined\<close> is read, and \<open>Rejected m\<close> is a value an external library
  (wallet extension, Ledger transport, blockchain SDK) throws or rejects with.
\<close>

datatype error =
    ConnectorNotLedgerError
  | ConnectorNotFoundError
  | Error string
  | TypeError string
  | Rejected string

text \<open>What \<^verbatim>\<open>console.error\<close> was given: a caught error, or a message that may be undefined.\<close>

datatype logged = LogError error | LogMessage "string option"

text \<open>
  The calls a connector issues to the outside world, in the order they are issued: the
  awaited calls to the wallet extension, to the Ledger transport and to the Ledger app,
  and the registrations on the event provider and on the transport. The synchronous
  functions of the blockchain SDK and the callbacks of \<^verbatim>\<open>options\<close> are not recorded.
\<close>

datatype sdk_call =
    AddEventListener string
  | RemoveEventListener string
  | RequestConnection
  | DisconnectFromSite
  | ProviderIsConnected
  | ProviderGetActivePublicKey
  | ProviderSignMessage string string
  | ProviderSign string string
  | TransportCreate
  | TransportOn string
  | TransportClose
  | AppGetAddressAndPubKey string
  | AppSignMessage string bytes
  | AppSign string bytes

record io =
  trace :: "sdk_call list"
  console :: "logged list"

subsection \<open>Truthiness\<close>

text \<open>
  \<^verbatim>\<open>!x\<close> and \<^verbatim>\<open>x || d\<close> on a \<^verbatim>\<open>string | undefined\<close>: \<^verbatim>\<open>undefined\<close> and the empty string
  are falsy. On an object (a Buffer, a response) only \<^verbatim>\<open>undefined\<close> is falsy: an empty
  Buffer is truthy.
\<close>

fun truthy_string :: "string option \<Rightarrow> bool" where
  "truthy_string None = False"
| "truthy_string (Some s) = (s \<noteq> [])"

fun truthy_object :: "'a option \<Rightarrow> bool" where
  "truthy_object None = False"
| "truthy_object (Some _) = True"

text \<open>\<^verbatim>\<open>x || d\<close> for a \<^verbatim>\<open>string | undefined\<close> \<open>x\<close> and a string \<open>d\<close>.\<close>

fun or_string :: "string option \<Rightarrow> string \<Rightarrow> string" where
  "or_string None d = d"
| "or_string (Some s) d = (if s = [] then d else s)"

subsection \<open>Hex encoding of a Buffer\<close>

text \<open>\<^verbatim>\<open>buffer.toString('hex')\<close>: two lower-case hex digits per byte.\<close>

definition hex_digit :: "nat \<Rightarrow> char" where
  "hex_digit n = ''0123456789abcdef'' ! (n mod 16)"

definition hex_byte :: "8 word \<Rightarrow> string" where
  "hex_byte b = [hex_digit (unat b div 16), hex_digit (unat b mod 16)]"

definition toString_hex :: "bytes \<Rightarrow> string" where
  "toString_hex bs = concat (map hex_byte bs)"

section \<open>Asynchronous code as state passing with errors\<close>

text \<open>
  An \<^verbatim>\<open>async\<close> function is a function from the state before to its outcome and the
  state after: \<open>Inl e\<close> is a rejection with \<open>e\<close> (a \<^verbatim>\<open>throw\<close>), \<open>Inr v\<close> a
  resolution with \<open>v\<close>. \<open>await_then m f\<close> is \<^verbatim>\<open>const x = await m; f(x)\<close> and
  \<open>try_catch m h\<close> is \<^verbatim>\<open>try { m } catch (e) { h(e) }\<close>.
\<close>

type_synonym ('s, 'a) async = "'s \<Rightarrow> (error + 'a) \<times> 's"

definition resolve :: "'a \<Rightarrow> ('s, 'a) async" where
  "resolve v s = (Inr v, s)"

definition throw :: "error \<Rightarrow> ('s, 'a) async" where
  "throw e s = (Inl e, s)"

definition await_then :: "('s, 'a) async \<Rightarrow> ('a \<Rightarrow> ('s, 'b) async) \<Rightarrow> ('s, 'b) async" where
  "await_then m f s = (case m s of (Inl e, s') \<Rightarrow> (Inl e, s') | (Inr v, s') \<Rightarrow> f v s')"

definition try_catch :: "('s, 'a) async \<Rightarrow> (error \<Rightarrow> ('s, 'a) async) \<Rightarrow> ('s, 'a) async" where
  "try_catch m h s = (case m s of (Inl e, s') \<Rightarrow> h e s' | (Inr v, s') \<Rightarrow> (Inr v, s'))"

text \<open>
  What a call to an external library answers: \<open>Inr v\<close> when it returns (or its promise
  resolves to) \<open>v\<close>, \<open>Inl m\<close> when it throws (or rejects with) a value of its own,
  which the caller sees as \<open>Rejected m\<close>. For a \<^verbatim>\<open>Result\<close> of the blockchain SDK,
  \<open>Inr\<close> is \<^verbatim>\<open>Ok\<close> and \<open>Inl\<close> is \<^verbatim>\<open>Err\<close>.
\<close>

type_synonym 'a answer = "string + 'a"

fun settle :: "'a answer \<Rightarrow> error + 'a" where
  "settle (Inl m) = Inl (Rejected m)"
| "settle (Inr v) = Inr v"

text \<open>
  A method of a connector runs on the fields of \<^verbatim>\<open>this\<close> and on the outside world.
  \<open>external c r\<close> issues the call \<open>c\<close> to an external library, which answers \<open>r\<close>.
\<close>

definition external :: "sdk_call \<Rightarrow> 'a answer \<Rightarrow> ('t \<times> io, 'a) async" where
  "external c r s = (case s of (this, w) \<Rightarrow> (settle r, (this, w\<lparr>trace := trace w @ [c]\<rparr>)))"

definition console_error :: "logged \<Rightarrow> ('t \<times> io, unit) async" where
  "console_error v s = (case s of (this, w) \<Rightarrow> (Inr (), (this, w\<lparr>console := console w @ [v]\<rparr>)))"

definition this_get :: "('t \<Rightarrow> 'a) \<Rightarrow> ('t \<times> io, 'a) async" where
  "this_get f s = (case s of (this, w) \<Rightarrow> (Inr (f this), (this, w)))"

definition this_set :: "('t \<Rightarrow> 't) \<Rightarrow> ('t \<times> io, unit) async" where
  "this_set f s = (case s of (this, w) \<Rightarrow> (Inr (), (f this, w)))"

section \<open>The external libraries\<close>

text \<open>Objects of the external libraries are opaque handles.\<close>

datatype transport = Transport nat
datatype casperApp = CasperApp transport
datatype window = Window
datatype sdk_deploy = SdkDeploy nat
datatype cl_public_key = CLPublicKey string

datatype json =
    JNull
  | JBool bool
  | JNum int
  | JStr string
  | JArr "json list"
  | JObj "(string \<times> json) list"

text \<open>The responses of \<^verbatim>\<open>@zondax/ledger-casper\<close>.\<close>

record address_response =
  errorMessage :: "string option"
  publicKey :: "bytes option"

record ledger_sign_response =
  signatureRS :: "bytes option"
  sign_errorMessage :: "string option"
  returnCode :: "nat option"

record ledger_signMessage_response =
  signatureRSV :: bytes

text \<open>The response of the Casper Wallet extension to a signing request.\<close>

record signature_response =
  cancelled :: bool
  signatureHex :: "string option"
  signature :: "bytes option"

text \<open>
  The provider object of the Casper Wallet extension: what each of its methods answers.
\<close>

record CasperWalletProvider =
  requestConnection :: "bool answer"
  disconnectFromSite :: "bool answer"
  provider_isConnected :: "bool answer"
  provider_getActivePublicKey :: "string option answer"
  provider_signMessage :: "string \<Rightarrow> string \<Rightarrow> signature_response answer"
  provider_sign :: "string \<Rightarrow> string \<Rightarrow> signature_response answer"

text \<open>What \<^verbatim>\<open>getLedgerError\<close> is given: a caught value, or the literal
  \<^verbatim>\<open>{ message: m, name: '' }\<close>.\<close>

datatype ledger_error_arg = Caught error | Literal "string option"

text \<open>
  Everything a connector reads from outside its own class. The functions of
  \<^verbatim>\<open>../utils\<close> and the value of \<^verbatim>\<open>AlgoEnum.SECP256K1\<close> are not among the sources, so
  they are parameters (\<^verbatim>\<open>getLedgerPath\<close> and \<^verbatim>\<open>getLedgerError\<close> as functions that
  return), as are the answers of the external libraries. \<^verbatim>\<open>deployFromJson\<close> and
  \<^verbatim>\<open>validateDeploy\<close> return a \<^verbatim>\<open>Result\<close>; \<^verbatim>\<open>CLPublicKey.fromHex\<close> returns or throws.
  \<open>options_getProvider\<close> and \<open>options_getEventProvider\<close> are what the callbacks
  \<^verbatim>\<open>options.getProvider?.()\<close> and \<^verbatim>\<open>options.getEventProvider?.()\<close> give.
\<close>

record env =
  \<comment> \<open>\<^verbatim>\<open>../utils\<close> and \<^verbatim>\<open>../enums\<close>\<close>
  getLedgerPath :: "string \<Rightarrow> string"
  getLedgerError :: "ledger_error_arg \<Rightarrow> nat option \<Rightarrow> string"
  CONNECT_ERROR_MESSAGE :: string
  SECP256K1 :: string
  \<comment> \<open>\<^verbatim>\<open>@ledgerhq/hw-transport-webusb\<close> and \<^verbatim>\<open>@zondax/ledger-casper\<close>\<close>
  TransportWebUSB_create :: "transport answer"
  transport_close :: "unit answer"
  getAddressAndPubKey :: "string \<Rightarrow> address_response answer"
  casperApp_signMessage :: "string \<Rightarrow> bytes \<Rightarrow> ledger_signMessage_response option answer"
  casperApp_sign :: "string \<Rightarrow> bytes \<Rightarrow> ledger_sign_response answer"
  \<comment> \<open>\<^verbatim>\<open>casper-js-sdk\<close>\<close>
  deployFromJson :: "json \<Rightarrow> sdk_deploy answer"
  deployToBytes :: "sdk_deploy \<Rightarrow> bytes"
  CLPublicKey_fromHex :: "string \<Rightarrow> cl_public_key answer"
  setSignature :: "sdk_deploy \<Rightarrow> bytes option \<Rightarrow> cl_public_key \<Rightarrow> sdk_deploy"
  validateDeploy :: "sdk_deploy \<Rightarrow> sdk_deploy answer"
  deployToJson :: "sdk_deploy \<Rightarrow> json"
  \<comment> \<open>the browser\<close>
  JSON_stringify :: "json \<Rightarrow> string"
  utf8 :: "string \<Rightarrow> bytes"
  options_getProvider :: "CasperWalletProvider option"
  options_getEventProvider :: "window option"

text \<open>
  \<^verbatim>\<open>result.unwrap()\<close>: the value of an \<^verbatim>\<open>Ok\<close>, a throw on an \<^verbatim>\<open>Err\<close>; also a call
  of the SDK that returns or throws, and is not traced.
\<close>

definition unwrap :: "'a answer \<Rightarrow> ('s, 'a) async" where
  "unwrap r s = (settle r, s)"

section \<open>CasperLedgerConnector\<close>

record CasperLedgerConnector =
  isReady :: "bool option"
  transport :: "transport option"
  casperApp :: "casperApp option"
  accountIndex :: "string option"
  eventProvider :: "window option"

text \<open>A connector as the constructor leaves it: no field is assigned.\<close>

definition new_CasperLedgerConnector :: CasperLedgerConnector where
  "new_CasperLedgerConnector =
     \<lparr>isReady = None, transport = None, casperApp = None, accountIndex = None,
      eventProvider = None\<rparr>"

type_synonym 'a ledger_method = "(CasperLedgerConnector \<times> io, 'a) async"

definition setAccountIndex :: "string \<Rightarrow> unit ledger_method" where
  "setAccountIndex index = this_set (\<lambda>this. this\<lparr>accountIndex := Some index\<rparr>)"

definition getAccountIndex :: "string option ledger_method" where
  "getAccountIndex = this_get (\<lambda>this. Some (or_string (accountIndex this) ''0''))"

text \<open>\<^verbatim>\<open>this.transport.close()\<close>: reading \<^verbatim>\<open>close\<close> of an unassigned field is a TypeError.\<close>

definition this_transport_close :: "env \<Rightarrow> unit ledger_method" where
  "this_transport_close E =
     await_then (this_get transport) (\<lambda>t.
       case t of
         None \<Rightarrow> throw (TypeError ''Cannot read properties of undefined (reading 'close')'')
       | Some _ \<Rightarrow> external TransportClose (transport_close E))"

definition CasperLedgerConnector_connect :: "env \<Rightarrow> unit ledger_method" where
  "CasperLedgerConnector_connect E =
     try_catch
       (await_then (external TransportCreate (TransportWebUSB_create E)) (\<lambda>t.
        await_then (this_set (\<lambda>this. this\<lparr>transport := Some t\<rparr>)) (\<lambda>_.
        await_then (this_set (\<lambda>this. this\<lparr>casperApp := Some (CasperApp t)\<rparr>)) (\<lambda>_.
        external (TransportOn ''disconnect'') (Inr ())))))
       (\<lambda>error. throw (Error (getLedgerError E (Caught error) None)))"

definition CasperLedgerConnector_getProvider :: "env \<Rightarrow> casperApp ledger_method" where
  "CasperLedgerConnector_getProvider E =
     await_then (CasperLedgerConnector_connect E) (\<lambda>_.
     await_then (this_get casperApp) (\<lambda>app.
       case app of
         None \<Rightarrow> throw ConnectorNotFoundError
       | Some a \<Rightarrow> resolve a))"

text \<open>
  \<^verbatim>\<open>getProvider\<close> resolves to a \<^verbatim>\<open>CasperApp\<close> object, so the test
  \<^verbatim>\<open>if (!casperApp)\<close> that follows it in \<^verbatim>\<open>getPublicKey\<close>, \<^verbatim>\<open>signMessage\<close> and
  \<^verbatim>\<open>sign\<close> never fires; the model has no branch for it.
\<close>

definition getPublicKey :: "env \<Rightarrow> string \<Rightarrow> string ledger_method" where
  "getPublicKey E index =
     await_then (CasperLedgerConnector_getProvider E) (\<lambda>app.
     await_then
       (try_catch
          (await_then
             (external (AppGetAddressAndPubKey (getLedgerPath E index))
                (getAddressAndPubKey E (getLedgerPath E index))) (\<lambda>value.
             case errorMessage value of
               None \<Rightarrow> resolve (publicKey value)
             | Some m \<Rightarrow>
                 if m \<noteq> [] \<and> m \<noteq> ''No errors'' then throw (Error m)
                 else resolve (publicKey value)))
          (\<lambda>error.
             await_then (this_transport_close E) (\<lambda>_.
             throw (Error (getLedgerError E (Caught error) None))))) (\<lambda>publicKey.
     await_then (this_transport_close E) (\<lambda>_.
       case publicKey of
         None \<Rightarrow> throw (Error (CONNECT_ERROR_MESSAGE E))
       | Some pk \<Rightarrow> resolve (SECP256K1 E @ toString_hex pk))))"

definition CasperLedgerConnector_getActivePublicKey :: "env \<Rightarrow> string ledger_method" where
  "CasperLedgerConnector_getActivePublicKey E =
     await_then (this_get accountIndex) (\<lambda>i. getPublicKey E (or_string i ''0''))"

definition CasperLedgerConnector_isConnected :: "env \<Rightarrow> bool ledger_method" where
  "CasperLedgerConnector_isConnected E =
     await_then (CasperLedgerConnector_getActivePublicKey E) (\<lambda>k. resolve (k \<noteq> []))"

definition CasperLedgerConnector_disconnect :: "unit ledger_method" where
  "CasperLedgerConnector_disconnect = resolve ()"

text \<open>
  The last parameter of \<^verbatim>\<open>signMessage\<close> and \<^verbatim>\<open>sign\<close> is \<^verbatim>\<open>{ index = '0' }\<close>: the
  default stands in when the index is \<^verbatim>\<open>undefined\<close> only.
\<close>

fun index_or_default :: "string option \<Rightarrow> string" where
  "index_or_default None = ''0''"
| "index_or_default (Some i) = i"

definition CasperLedgerConnector_signMessage ::
  "env \<Rightarrow> string \<Rightarrow> string \<Rightarrow> string option \<Rightarrow> string ledger_method" where
  "CasperLedgerConnector_signMessage E message signingPublicKeyHex index =
     await_then (CasperLedgerConnector_getProvider E) (\<lambda>app.
     await_then (this_get accountIndex) (\<lambda>i.
     await_then
       (external
          (AppSignMessage (getLedgerPath E (or_string i (index_or_default index)))
             (utf8 E (''Casper Message:\<newline>'' @ message)))
          (casperApp_signMessage E (getLedgerPath E (or_string i (index_or_default index)))
             (utf8 E (''Casper Message:\<newline>'' @ message)))) (\<lambda>signatureResponse.
       case signatureResponse of
         None \<Rightarrow>
           await_then (this_transport_close E) (\<lambda>_.
           throw (Error ''Error on sign message with ledger.''))
       | Some r \<Rightarrow>
           await_then (this_transport_close E) (\<lambda>_.
           resolve (toString_hex (signatureRSV r))))))"

definition CasperLedgerConnector_sign ::
  "env \<Rightarrow> json \<Rightarrow> string \<Rightarrow> string \<Rightarrow> string option \<Rightarrow> json ledger_method" where
  "CasperLedgerConnector_sign E deploy signingPublicKeyHex targetPublicKeyHex index =
     await_then (CasperLedgerConnector_getProvider E) (\<lambda>app.
     await_then (unwrap (deployFromJson E deploy)) (\<lambda>deployJson.
     await_then (this_get accountIndex) (\<lambda>i.
     await_then
       (external
          (AppSign (getLedgerPath E (or_string i (index_or_default index)))
             (deployToBytes E deployJson))
          (casperApp_sign E (getLedgerPath E (or_string i (index_or_default index)))
             (deployToBytes E deployJson))) (\<lambda>responseDeploy.
       if \<not> truthy_object (signatureRS responseDeploy) then
         await_then (console_error (LogMessage (sign_errorMessage responseDeploy))) (\<lambda>_.
         await_then (this_transport_close E) (\<lambda>_.
         throw (Error (getLedgerError E (Literal (sign_errorMessage responseDeploy))
                         (returnCode responseDeploy)))))
       else
         await_then (unwrap (CLPublicKey_fromHex E signingPublicKeyHex)) (\<lambda>pk.
           case validateDeploy E (setSignature E deployJson (signatureRS responseDeploy) pk) of
             Inr val \<Rightarrow>
               await_then (this_transport_close E) (\<lambda>_. resolve (deployToJson E val))
           | Inl _ \<Rightarrow>
               await_then (this_transport_close E) (\<lambda>_.
               throw (Error ''Error on sign deploy with ledger.'')))))))"

section \<open>CasperWalletConnector\<close>

record CasperWalletConnector =
  wallet_isReady :: bool
  wallet_provider :: "CasperWalletProvider option"
  wallet_eventProvider :: "window option"

text \<open>The constructor calls \<^verbatim>\<open>options.getProvider()\<close> once, for \<^verbatim>\<open>isReady\<close>.\<close>

definition new_CasperWalletConnector :: "env \<Rightarrow> CasperWalletConnector" where
  "new_CasperWalletConnector E =
     \<lparr>wallet_isReady = truthy_object (options_getProvider E), wallet_provider = None,
      wallet_eventProvider = None\<rparr>"

type_synonym 'a wallet_method = "(CasperWalletConnector \<times> io, 'a) async"

definition CasperWalletConnector_getProvider :: "env \<Rightarrow> CasperWalletProvider wallet_method" where
  "CasperWalletConnector_getProvider E =
     (case options_getProvider E of
        None \<Rightarrow> throw ConnectorNotFoundError
      | Some provider \<Rightarrow>
          await_then (this_set (\<lambda>this. this\<lparr>wallet_provider := Some provider\<rparr>)) (\<lambda>_.
          await_then (this_set (\<lambda>this. this\<lparr>wallet_isReady := True\<rparr>)) (\<lambda>_.
          resolve provider)))"

definition CasperWalletConnector_getEventProvider :: "env \<Rightarrow> window wallet_method" where
  "CasperWalletConnector_getEventProvider E =
     (case options_getEventProvider E of
        None \<Rightarrow> throw ConnectorNotFoundError
      | Some w \<Rightarrow>
          await_then (this_set (\<lambda>this. this\<lparr>wallet_eventProvider := Some w\<rparr>)) (\<lambda>_.
          resolve w))"

definition CasperWalletConnector_isConnected :: "env \<Rightarrow> bool wallet_method" where
  "CasperWalletConnector_isConnected E =
     try_catch
       (await_then (CasperWalletConnector_getProvider E) (\<lambda>provider.
        external ProviderIsConnected (provider_isConnected provider)))
       (\<lambda>err. resolve False)"

definition CasperWalletConnector_disconnect :: "env \<Rightarrow> unit wallet_method" where
  "CasperWalletConnector_disconnect E =
     await_then (CasperWalletConnector_getProvider E) (\<lambda>provider.
     await_then (CasperWalletConnector_getEventProvider E) (\<lambda>eventProvider.
     await_then (external (RemoveEventListener ''casper-wallet:activeKeyChanged'') (Inr ())) (\<lambda>_.
     await_then (external (RemoveEventListener ''casper-wallet:disconnected'') (Inr ())) (\<lambda>_.
     await_then (external (RemoveEventListener ''casper-wallet:connected'') (Inr ())) (\<lambda>_.
     await_then (external (RemoveEventListener ''casper-wallet:unlocked'') (Inr ())) (\<lambda>_.
     await_then (external DisconnectFromSite (disconnectFromSite provider)) (\<lambda>_.
     resolve ())))))))"

definition CasperWalletConnector_connect :: "env \<Rightarrow> unit wallet_method" where
  "CasperWalletConnector_connect E =
     await_then (CasperWalletConnector_getProvider E) (\<lambda>provider.
     await_then (CasperWalletConnector_getEventProvider E) (\<lambda>eventProvider.
     await_then (external (AddEventListener ''casper-wallet:activeKeyChanged'') (Inr ())) (\<lambda>_.
     await_then (external (AddEventListener ''casper-wallet:disconnected'') (Inr ())) (\<lambda>_.
     await_then (external (AddEventListener ''casper-wallet:connected'') (Inr ())) (\<lambda>_.
     await_then (external (AddEventListener ''casper-wallet:unlocked'') (Inr ())) (\<lambda>_.
     await_then (external RequestConnection (requestConnection provider)) (\<lambda>_.
     resolve ())))))))"

definition CasperWalletConnector_getActivePublicKey :: "env \<Rightarrow> string option wallet_method" where
  "CasperWalletConnector_getActivePublicKey E =
     await_then (CasperWalletConnector_getProvider E) (\<lambda>provider.
     external ProviderGetActivePublicKey (provider_getActivePublicKey provider))"

definition CasperWalletConnector_signMessage ::
  "env \<Rightarrow> string \<Rightarrow> string \<Rightarrow> string option wallet_method" where
  "CasperWalletConnector_signMessage E message signingPublicKeyHex =
     await_then (CasperWalletConnector_getProvider E) (\<lambda>provider.
     await_then
       (external (ProviderSignMessage message signingPublicKeyHex)
          (provider_signMessage provider message signingPublicKeyHex)) (\<lambda>signatureResponse.
       if cancelled signatureResponse then resolve None
       else resolve (signatureHex signatureResponse)))"

definition CasperWalletConnector_sign ::
  "env \<Rightarrow> json \<Rightarrow> string \<Rightarrow> json option wallet_method" where
  "CasperWalletConnector_sign E deploy signingPublicKeyHex =
     await_then (CasperWalletConnector_getProvider E) (\<lambda>provider.
     await_then (resolve (deployFromJson E deploy)) (\<lambda>deployJson.
     await_then
       (external (ProviderSign (JSON_stringify E deploy) signingPublicKeyHex)
          (provider_sign provider (JSON_stringify E deploy) signingPublicKeyHex)) (\<lambda>res.
       if cancelled res then resolve None
       else
         await_then (unwrap deployJson) (\<lambda>d.
         await_then (unwrap (CLPublicKey_fromHex E signingPublicKeyHex)) (\<lambda>pk.
         resolve (Some (deployToJson E (setSignature E d (signature res) pk))))))))"

section \<open>The client and the account actions\<close>

text \<open>
  A connector object is an instance of one of the two classes above, or of a connector
  class that is not among the sources: such an object carries its \<^verbatim>\<open>id\<close> and the
  outcome of its \<^verbatim>\<open>disconnect()\<close>, which may be any error.
\<close>

record foreign_connector =
  foreign_id :: string
  foreign_disconnect :: "error + unit"

datatype connector =
    Ledger CasperLedgerConnector
  | Wallet CasperWalletConnector
  | Foreign foreign_connector

fun connector_id :: "connector \<Rightarrow> string" where
  "connector_id (Ledger _) = ''ledger''"
| "connector_id (Wallet _) = ''casperWallet''"
| "connector_id (Foreign f) = foreign_id f"

text \<open>A method of one class, run on a connector object that is of that class.\<close>

definition as_ledger :: "CasperLedgerConnector \<Rightarrow> io \<Rightarrow> 'a ledger_method \<Rightarrow> (error + 'a) \<times> connector \<times> io" where
  "as_ledger l w m = (case m (l, w) of (r, l', w') \<Rightarrow> (r, Ledger l', w'))"

definition as_wallet :: "CasperWalletConnector \<Rightarrow> io \<Rightarrow> 'a wallet_method \<Rightarrow> (error + 'a) \<times> connector \<times> io" where
  "as_wallet c w m = (case m (c, w) of (r, c', w') \<Rightarrow> (r, Wallet c', w'))"

text \<open>\<^verbatim>\<open>connector.disconnect()\<close>, dispatched on the class of the object.\<close>

definition connector_disconnect :: "env \<Rightarrow> (connector \<times> io, unit) async" where
  "connector_disconnect E s =
     (case s of
        (Ledger l, w) \<Rightarrow> as_ledger l w CasperLedgerConnector_disconnect
      | (Wallet c, w) \<Rightarrow> as_wallet c w (CasperWalletConnector_disconnect E)
      | (Foreign f, w) \<Rightarrow> (foreign_disconnect f, (Foreign f, w)))"

text \<open>
  \<^verbatim>\<open>(connector as CasperLedgerConnector).getPublicKey(index)\<close> and
  \<^verbatim>\<open>.setAccountIndex(index)\<close>: the cast does nothing at run time. Both methods are
  CasperLedgerConnector's own (hence the cast); on an object of another class the call
  is a TypeError.
\<close>

definition connector_getPublicKey :: "env \<Rightarrow> string \<Rightarrow> (connector \<times> io, string) async" where
  "connector_getPublicKey E index s =
     (case s of
        (Ledger l, w) \<Rightarrow> as_ledger l w (getPublicKey E index)
      | (Wallet c, w) \<Rightarrow> (Inl (TypeError ''connector.getPublicKey is not a function''), s)
      | (Foreign f, w) \<Rightarrow> (Inl (TypeError ''connector.getPublicKey is not a function''), s))"

definition connector_setAccountIndex :: "string \<Rightarrow> (connector \<times> io, unit) async" where
  "connector_setAccountIndex index s =
     (case s of
        (Ledger l, w) \<Rightarrow> as_ledger l w (setAccountIndex index)
      | (Wallet c, w) \<Rightarrow> (Inl (TypeError ''connector.setAccountIndex is not a function''), s)
      | (Foreign f, w) \<Rightarrow> (Inl (TypeError ''connector.setAccountIndex is not a function''), s))"

text \<open>
  Modelled from the spec: the client of \<^verbatim>\<open>utils/client\<close> (\<^verbatim>\<open>getClient\<close>,
  \<^verbatim>\<open>StateParams\<close>, \<^verbatim>\<open>setState\<close>) and \<^verbatim>\<open>StatusEnum\<close> are not among the sources. The
  spec has "a small client state object (active public key, connector reference, status
  enum)" with "overwrite semantics": the state holds the status, a reference to the
  connector and the data, of which the actions name \<^verbatim>\<open>activeKey\<close> and
  \<^verbatim>\<open>ledgerAccountIndex\<close>; \<^verbatim>\<open>client.connector\<close> reads the reference, and
  \<^verbatim>\<open>client.setState(f)\<close> replaces the state by \<open>f\<close> of the state. Fields the sources
  do not name are the extension part of each record. Of the status enum only
  \<^verbatim>\<open>DISCONNECTED\<close> is named.
\<close>

datatype StatusEnum = DISCONNECTED | OtherStatus string

record StateData =
  activeKey :: "string option"
  ledgerAccountIndex :: "string option"

record 'd StateParams =
  status :: StatusEnum
  connector :: "nat option"
  data :: "'d StateData_scheme"

text \<open>
  The world of an action: the state of the client, the connector objects by reference,
  and the outside world.
\<close>

record ('d, 's) world =
  state :: "('d, 's) StateParams_scheme"
  heap :: "nat \<Rightarrow> connector"
  outside :: io

type_synonym ('d, 's, 'a) action = "(('d, 's) world, 'a) async"

definition client_connector :: "('d, 's, nat option) action" where
  "client_connector w = (Inr (connector (state w)), w)"

definition setState ::
  "(('d, 's) StateParams_scheme \<Rightarrow> ('d, 's) StateParams_scheme) \<Rightarrow> ('d, 's, unit) action" where
  "setState f w = (Inr (), w\<lparr>state := f (state w)\<rparr>)"

text \<open>\<^verbatim>\<open>console.error(error)\<close> in an action.\<close>

definition log_error :: "error \<Rightarrow> ('d, 's, unit) action" where
  "log_error e w =
     (Inr (), w\<lparr>outside := (outside w)\<lparr>console := console (outside w) @ [LogError e]\<rparr>\<rparr>)"

text \<open>A method call on the connector object behind a reference.\<close>

definition invoke :: "nat \<Rightarrow> (connector \<times> io, 'a) async \<Rightarrow> ('d, 's, 'a) action" where
  "invoke a m w =
     (case m (heap w a, outside w) of
        (r, c', w') \<Rightarrow> (r, w\<lparr>heap := (heap w)(a := c'), outside := w'\<rparr>))"

text \<open>\<^verbatim>\<open>connector.id\<close> of the object behind a reference.\<close>

definition id_of :: "nat \<Rightarrow> ('d, 's, string) action" where
  "id_of a w = (Inr (connector_id (heap w a)), w)"

definition disconnect :: "env \<Rightarrow> ('d, 's, unit) action" where
  "disconnect E =
     try_catch
       (await_then client_connector (\<lambda>c.
        await_then
          (case c of
             None \<Rightarrow> resolve ()
           | Some a \<Rightarrow> invoke a (connector_disconnect E)) (\<lambda>_.
        setState (\<lambda>oldState.
          oldState\<lparr>status := DISCONNECTED,
                   data := (data oldState)\<lparr>activeKey := None\<rparr>\<rparr>))))
       (\<lambda>error. log_error error)"

text \<open>
  \<^verbatim>\<open>if (connector && connector.id !== 'ledger') throw new ConnectorNotLedgerError()\<close>
\<close>

definition check_ledger :: "nat option \<Rightarrow> ('d, 's, unit) action" where
  "check_ledger c =
     (case c of
        None \<Rightarrow> resolve ()
      | Some a \<Rightarrow>
          await_then (id_of a) (\<lambda>i.
          if i \<noteq> ''ledger'' then throw ConnectorNotLedgerError else resolve ()))"

definition setLedgerAccountIndex :: "env \<Rightarrow> string option \<Rightarrow> ('d, 's, unit) action" where
  "setLedgerAccountIndex E index =
     try_catch
       (await_then client_connector (\<lambda>c.
        await_then (check_ledger c) (\<lambda>_.
        await_then
          (case c of
             None \<Rightarrow> throw (TypeError ''Cannot read properties of undefined (reading 'getPublicKey')'')
           | Some a \<Rightarrow> invoke a (connector_getPublicKey E (index_or_default index))) (\<lambda>publicKey.
        await_then
          (setState (\<lambda>oldState.
             oldState\<lparr>data := (data oldState)\<lparr>ledgerAccountIndex := Some (index_or_default index),
                                                activeKey := Some publicKey\<rparr>\<rparr>)) (\<lambda>_.
          case c of
            None \<Rightarrow> throw (TypeError ''Cannot read properties of undefined (reading 'setAccountIndex')'')
          | Some a \<Rightarrow> invoke a (connector_setAccountIndex (index_or_default index)))))))
       (\<lambda>error. await_then (log_error error) (\<lambda>_. throw error))"

definition getLedgerPublicKey :: "env \<Rightarrow> string option \<Rightarrow> ('d, 's, string option) action" where
  "getLedgerPublicKey E index =
     await_then client_connector (\<lambda>c.
     try_catch
       (await_then (check_ledger c) (\<lambda>_.
          case c of
            None \<Rightarrow> resolve None
          | Some a \<Rightarrow>
              await_then (invoke a (connector_getPublicKey E (index_or_default index))) (\<lambda>publicKey.
              resolve (Some publicKey))))
       (\<lambda>error. await_then (log_error error) (\<lambda>_. throw error)))"

section \<open>The sign operation of useSign\<close>

text \<open>
  Modelled from the spec: \<^verbatim>\<open>useSign\<close> itself is not among the sources, only its test
  is. The spec has "validation rejects empty deploy/key fields"; the test gives the three
  messages, and that a missing deploy is reported before an empty key
  (\<^verbatim>\<open>signAsync({ signingPublicKey: '', targetPublicKeyHex: '' })\<close> fails with the
  deploy's message). The two keys are checked in the order the test lists them. A field
  is empty when it is falsy: \<^verbatim>\<open>undefined\<close>, \<^verbatim>\<open>null\<close>, \<^verbatim>\<open>''\<close>, \<^verbatim>\<open>0\<close> or \<^verbatim>\<open>false\<close>; the
  empty object \<^verbatim>\<open>{}\<close> is not (the test passes \<^verbatim>\<open>deploy: {}\<close> to reach the key checks).
  With all three fields given, the operation hands them to the \<^verbatim>\<open>sign\<close> action, a
  parameter here.
\<close>

record SignParams =
  deploy :: "json option"
  signingPublicKey :: "string option"
  targetPublicKeyHex :: "string option"

fun truthy_json :: "json option \<Rightarrow> bool" where
  "truthy_json None = False"
| "truthy_json (Some JNull) = False"
| "truthy_json (Some (JBool b)) = b"
| "truthy_json (Some (JNum n)) = (n \<noteq> 0)"
| "truthy_json (Some (JStr s)) = (s \<noteq> [])"
| "truthy_json (Some (JArr _)) = True"
| "truthy_json (Some (JObj _)) = True"

definition useSign_sign :: "(SignParams \<Rightarrow> error + 'r) \<Rightarrow> SignParams \<Rightarrow> error + 'r" where
  "useSign_sign sign_action params =
     (if \<not> truthy_json (deploy params) then Inl (Error ''Deploy must be a non-empty'')
      else if \<not> truthy_string (signingPublicKey params)
        then Inl (Error ''signingPublicKey must be a non-empty string'')
      else if \<not> truthy_string (targetPublicKeyHex params)
        then Inl (Error ''targetPublicKeyHex must be a non-empty string'')
      else sign_action params)"

section \<open>The calls of one invocation\<close>

text \<open>
  The calls a method issues during one invocation from the state \<open>s\<close>: what it appends
  to the trace. \<open>call_target\<close> is the external function a call goes to, whatever the
  arguments; the event listeners are told apart by their event.
\<close>

definition calls :: "('t \<times> io, 'a) async \<Rightarrow> 't \<times> io \<Rightarrow> sdk_call list" where
  "calls m s = drop (length (trace (snd s))) (trace (snd (snd (m s))))"

fun call_target :: "sdk_call \<Rightarrow> string" where
  "call_target (AddEventListener e) = ''eventProvider.addEventListener '' @ e"
| "call_target (RemoveEventListener e) = ''eventProvider.removeEventListener '' @ e"
| "call_target RequestConnection = ''provider.requestConnection''"
| "call_target DisconnectFromSite = ''provider.disconnectFromSite''"
| "call_target ProviderIsConnected = ''provider.isConnected''"
| "call_target ProviderGetActivePublicKey = ''provider.getActivePublicKey''"
| "call_target (ProviderSignMessage _ _) = ''provider.signMessage''"
| "call_target (ProviderSign _ _) = ''provider.sign''"
| "call_target TransportCreate = ''TransportWebUSB.create''"
| "call_target (TransportOn e) = ''transport.on '' @ e"
| "call_target TransportClose = ''transport.close''"
| "call_target (AppGetAddressAndPubKey _) = ''casperApp.getAddressAndPubKey''"
| "call_target (AppSignMessage _ _) = ''casperApp.signMessage''"
| "call_target (AppSign _ _) = ''casperApp.sign''"

definition at_most_once :: "sdk_call list \<Rightarrow> bool" where
  "at_most_once cs = distinct (map call_target cs)"

section \<open>Concrete inputs\<close>

text \<open>
  An environment in which every external call succeeds: the Ledger answers with a
  two-byte key, and the user of the wallet extension cancels every signing request.
\<close>

definition cancelling_provider :: CasperWalletProvider where
  "cancelling_provider =
     \<lparr>requestConnection = Inr True,
      disconnectFromSite = Inr True,
      provider_isConnected = Inr True,
      provider_getActivePublicKey = Inr (Some ''01ab''),
      provider_signMessage = (\<lambda>m k. Inr \<lparr>cancelled = True, signatureHex = None, signature = None\<rparr>),
      provider_sign = (\<lambda>d k. Inr \<lparr>cancelled = True, signatureHex = None, signature = None\<rparr>)\<rparr>"

definition example_env :: env where
  "example_env =
     \<lparr>getLedgerPath = (\<lambda>i. ''m/44/506/0/0/'' @ i),
      getLedgerError = (\<lambda>a c. ''ledger error''),
      CONNECT_ERROR_MESSAGE = ''connect error'',
      SECP256K1 = ''02'',
      TransportWebUSB_create = Inr (Transport 0),
      transport_close = Inr (),
      getAddressAndPubKey = (\<lambda>p. Inr \<lparr>errorMessage = Some ''No errors'', publicKey = Some [0x03, 0xab]\<rparr>),
      casperApp_signMessage = (\<lambda>p b. Inr (Some \<lparr>signatureRSV = [0x01]\<rparr>)),
      casperApp_sign = (\<lambda>p b. Inr \<lparr>signatureRS = Some [0x05], sign_errorMessage = Some ''No errors'',
                                   returnCode = Some 36864\<rparr>),
      deployFromJson = (\<lambda>j. Inr (SdkDeploy 0)),
      deployToBytes = (\<lambda>d. [0x00]),
      CLPublicKey_fromHex = (\<lambda>h. Inr (CLPublicKey h)),
      setSignature = (\<lambda>d s k. d),
      validateDeploy = (\<lambda>d. Inr d),
      deployToJson = (\<lambda>d. JObj [(''deploy'', JObj [])]),
      JSON_stringify = (\<lambda>j. ''{}''),
      utf8 = map (\<lambda>c. of_nat (of_char c)),
      options_getProvider = Some cancelling_provider,
      options_getEventProvider = Some Window\<rparr>"

text \<open>The same, with no wallet extension in the browser.\<close>

definition no_extension_env :: env where
  "no_extension_env = example_env\<lparr>options_getProvider := None\<rparr>"

definition empty_io :: io where
  "empty_io = \<lparr>trace = [], console = []\<rparr>"

text \<open>A client whose state refers to the connector object at address 0.\<close>

definition example_world :: "connector \<Rightarrow> (unit, unit) world" where
  "example_world c =
     \<lparr>state = \<lparr>status = OtherStatus ''connected'', connector = Some 0,
               data = \<lparr>activeKey = Some ''01ab'', ledgerAccountIndex = Some ''3''\<rparr>\<rparr>,
      heap = (\<lambda>a. c),
      outside = empty_io\<rparr>"

section \<open>What the statements below speak of\<close>

text \<open>
  The fields \<^verbatim>\<open>connect\<close> assigns: the created transport and the \<^verbatim>\<open>CasperApp\<close> on it,
  when \<^verbatim>\<open>TransportWebUSB.create()\<close> succeeds.
\<close>

definition ledger_connected :: "env \<Rightarrow> CasperLedgerConnector \<Rightarrow> CasperLedgerConnector" where
  "ledger_connected E this =
     (case TransportWebUSB_create E of
        Inl _ \<Rightarrow> this
      | Inr t \<Rightarrow> this\<lparr>transport := Some t, casperApp := Some (CasperApp t)\<rparr>)"

text \<open>The fields \<^verbatim>\<open>getProvider\<close> of the wallet connector assigns, when there is a provider.\<close>

definition wallet_provided :: "env \<Rightarrow> CasperWalletConnector \<Rightarrow> CasperWalletConnector" where
  "wallet_provided E this =
     (case options_getProvider E of
        None \<Rightarrow> this
      | Some p \<Rightarrow> this\<lparr>wallet_provider := Some p, wallet_isReady := True\<rparr>)"

text \<open>
  The fields \<^verbatim>\<open>getProvider\<close> and then \<^verbatim>\<open>getEventProvider\<close> assign; the second is
  reached only when the first found a provider.
\<close>

definition wallet_listening :: "env \<Rightarrow> CasperWalletConnector \<Rightarrow> CasperWalletConnector" where
  "wallet_listening E this =
     (case options_getProvider E of
        None \<Rightarrow> this
      | Some p \<Rightarrow>
          (case options_getEventProvider E of
             None \<Rightarrow> this\<lparr>wallet_provider := Some p, wallet_isReady := True\<rparr>
           | Some ep \<Rightarrow>
               this\<lparr>wallet_provider := Some p, wallet_isReady := True,
                    wallet_eventProvider := Some ep\<rparr>))"

text \<open>A client whose state refers to no connector.\<close>

definition unconnected_world :: "(unit, unit) world" where
  "unconnected_world =
     \<lparr>state = \<lparr>status = DISCONNECTED, connector = None,
               data = \<lparr>activeKey = None, ledgerAccountIndex = None\<rparr>\<rparr>,
      heap = (\<lambda>a. Ledger new_CasperLedgerConnector),
      outside = empty_io\<rparr>"

text \<open>The connectors the state of the client refers to.\<close>

definition active_connectors :: "('d, 's) world \<Rightarrow> nat set" where
  "active_connectors w = set_option (connector (state w))"

text \<open>The bytes \<^verbatim>\<open>sign\<close> of the Ledger connector sends to the device, if the deploy parses.\<close>

definition deploy_bytes :: "env \<Rightarrow> json \<Rightarrow> bytes" where
  "deploy_bytes E d = (case deployFromJson E d of Inl _ \<Rightarrow> [] | Inr dj \<Rightarrow> deployToBytes E dj)"

section \<open>Basic facts\<close>

lemmas async_defs = resolve_def throw_def await_then_def try_catch_def external_def
  console_error_def this_get_def this_set_def unwrap_def

lemmas ledger_defs = getPublicKey_def CasperLedgerConnector_getProvider_def
  CasperLedgerConnector_connect_def this_transport_close_def
  CasperLedgerConnector_sign_def CasperLedgerConnector_signMessage_def
  CasperLedgerConnector_disconnect_def setAccountIndex_def getAccountIndex_def

lemmas wallet_defs = CasperWalletConnector_getProvider_def
  CasperWalletConnector_getEventProvider_def CasperWalletConnector_connect_def
  CasperWalletConnector_disconnect_def CasperWalletConnector_sign_def
  CasperWalletConnector_signMessage_def

lemmas action_defs = client_connector_def setState_def log_error_def invoke_def id_of_def
  check_ledger_def

lemma settle_Inr: "settle r = Inr v \<longleftrightarrow> r = Inr v"
  by (cases r) auto

lemma settle_Inl: "settle r = Inl e \<longleftrightarrow> (\<exists>m. r = Inl m \<and> e = Rejected m)"
  by (cases r) auto

text \<open>The hex encoding has two digits per byte, as \<^verbatim>\<open>Buffer.toString('hex')\<close> has.\<close>

lemma length_toString_hex: "length (toString_hex bs) = 2 * length bs"
  by (induction bs) (simp_all add: toString_hex_def hex_byte_def)

lemma toString_hex_example: "toString_hex [0x03, 0xab, 0x00, 0xff] = ''03ab00ff''"
  by (simp add: toString_hex_def hex_byte_def hex_digit_def)

section \<open>The account index of the Ledger connector\<close>

text \<open>
  C9. For every non-empty string \<open>i\<close>, \<^verbatim>\<open>setAccountIndex(i)\<close> followed by
  \<^verbatim>\<open>getAccountIndex()\<close> returns \<open>i\<close>. Before any \<^verbatim>\<open>setAccountIndex\<close> (on a new
  connector, and on any connector whose \<^verbatim>\<open>accountIndex\<close> is still undefined) and after
  \<^verbatim>\<open>setAccountIndex('')\<close>, \<^verbatim>\<open>getAccountIndex()\<close> returns \<^verbatim>\<open>'0'\<close>. In every state it
  returns a non-empty string, never \<^verbatim>\<open>undefined\<close> and never \<^verbatim>\<open>''\<close>.
\<close>

theorem getAccountIndex_after_setAccountIndex:
  "(i \<noteq> [] \<longrightarrow> fst (getAccountIndex (snd (setAccountIndex i (this, w)))) = Inr (Some i))
   \<and> fst (getAccountIndex (new_CasperLedgerConnector, w)) = Inr (Some ''0'')
   \<and> (accountIndex this = None \<longrightarrow> fst (getAccountIndex (this, w)) = Inr (Some ''0''))
   \<and> fst (getAccountIndex (snd (setAccountIndex [] (this, w)))) = Inr (Some ''0'')
   \<and> (\<exists>s. fst (getAccountIndex (this, w)) = Inr (Some s) \<and> s \<noteq> [])"
  by (cases "accountIndex this")
     (simp_all add: getAccountIndex_def setAccountIndex_def this_get_def this_set_def
        new_CasperLedgerConnector_def)

theorem getAccountIndex_after_setAccountIndex_witness:
  "''7'' \<noteq> []
   \<and> fst (getAccountIndex (snd (setAccountIndex ''7'' (new_CasperLedgerConnector, empty_io))))
       = Inr (Some ''7'')
   \<and> accountIndex new_CasperLedgerConnector = None
   \<and> fst (getAccountIndex (new_CasperLedgerConnector, empty_io)) = Inr (Some ''0'')"
  using getAccountIndex_after_setAccountIndex [of "''7''" new_CasperLedgerConnector empty_io]
  by (simp add: new_CasperLedgerConnector_def)

section \<open>The public key of the Ledger connector\<close>

text \<open>
  C10, as stated, fails: when the device answers with an empty (zero-length) public key
  and no error, \<^verbatim>\<open>!publicKey\<close> is false for the empty Buffer, and \<^verbatim>\<open>getPublicKey\<close>
  returns the bare prefix.
\<close>

theorem getPublicKey_empty_key_bare_prefix:
  "getAddressAndPubKey
      (example_env\<lparr>getAddressAndPubKey :=
         (\<lambda>p. Inr \<lparr>errorMessage = Some ''No errors'', publicKey = Some []\<rparr>)\<rparr>)
      (getLedgerPath example_env ''0'')
     = Inr \<lparr>errorMessage = Some ''No errors'', publicKey = Some []\<rparr>
   \<and> fst (getPublicKey
        (example_env\<lparr>getAddressAndPubKey :=
           (\<lambda>p. Inr \<lparr>errorMessage = Some ''No errors'', publicKey = Some []\<rparr>)\<rparr>)
        ''0'' (new_CasperLedgerConnector, empty_io))
     = Inr (SECP256K1 example_env)
   \<and> fst (getPublicKey
        (example_env\<lparr>getAddressAndPubKey :=
           (\<lambda>p. Inr \<lparr>errorMessage = Some ''No errors'', publicKey = Some []\<rparr>)\<rparr>)
        ''0'' (new_CasperLedgerConnector, empty_io))
     \<noteq> Inl (Error (CONNECT_ERROR_MESSAGE example_env))"
  unfolding ledger_defs
  by (simp add: async_defs example_env_def new_CasperLedgerConnector_def empty_io_def
        toString_hex_def)

text \<open>
  C10, amended. Every successful call of \<^verbatim>\<open>getPublicKey\<close> returns the SECP256K1 prefix
  followed by the hex encoding of the public-key bytes the device returned. When the
  transport is created, the device's answer carries no public key (\<^verbatim>\<open>undefined\<close>) and no
  error message other than \<^verbatim>\<open>'No errors'\<close>, and the transport closes, the call throws an
  error with \<^verbatim>\<open>CONNECT_ERROR_MESSAGE\<close>.
\<close>

theorem getPublicKey_prefix_hex:
  "(fst (getPublicKey E index (this, w)) = Inr k \<longrightarrow>
      (\<exists>v pk. getAddressAndPubKey E (getLedgerPath E index) = Inr v \<and> publicKey v = Some pk
         \<and> k = SECP256K1 E @ toString_hex pk))
   \<and> (TransportWebUSB_create E = Inr t
        \<and> getAddressAndPubKey E (getLedgerPath E index) = Inr v
        \<and> publicKey v = None
        \<and> errorMessage v \<in> {None, Some [], Some ''No errors''}
        \<and> transport_close E = Inr ()
      \<longrightarrow> fst (getPublicKey E index (this, w)) = Inl (Error (CONNECT_ERROR_MESSAGE E)))"
  unfolding ledger_defs
  by (auto simp: async_defs settle_Inr split: sum.splits option.splits if_splits prod.splits)

theorem getPublicKey_prefix_hex_witness:
  "fst (getPublicKey example_env ''1'' (new_CasperLedgerConnector, empty_io)) = Inr ''0203ab''
   \<and> getAddressAndPubKey example_env (getLedgerPath example_env ''1'')
       = Inr \<lparr>errorMessage = Some ''No errors'', publicKey = Some [0x03, 0xab]\<rparr>
   \<and> ''0203ab'' = SECP256K1 example_env @ toString_hex [0x03, 0xab]
   \<and> TransportWebUSB_create (example_env\<lparr>getAddressAndPubKey :=
         (\<lambda>p. Inr \<lparr>errorMessage = None, publicKey = None\<rparr>)\<rparr>) = Inr (Transport 0)
   \<and> transport_close (example_env\<lparr>getAddressAndPubKey :=
         (\<lambda>p. Inr \<lparr>errorMessage = None, publicKey = None\<rparr>)\<rparr>) = Inr ()
   \<and> fst (getPublicKey
        (example_env\<lparr>getAddressAndPubKey := (\<lambda>p. Inr \<lparr>errorMessage = None, publicKey = None\<rparr>)\<rparr>)
        ''1'' (new_CasperLedgerConnector, empty_io))
     = Inl (Error ''connect error'')"
proof -
  have run: "fst (getPublicKey example_env ''1'' (new_CasperLedgerConnector, empty_io))
      = Inr ''0203ab''"
    unfolding ledger_defs
    by (simp add: async_defs example_env_def new_CasperLedgerConnector_def empty_io_def
          toString_hex_def hex_byte_def hex_digit_def)
  have hex: "''0203ab'' = SECP256K1 example_env @ toString_hex [0x03, 0xab]"
    by (simp add: example_env_def toString_hex_def hex_byte_def hex_digit_def)
  from getPublicKey_prefix_hex
      [of "example_env\<lparr>getAddressAndPubKey :=
             (\<lambda>p. Inr \<lparr>errorMessage = None, publicKey = None\<rparr>)\<rparr>"
          "''1''" new_CasperLedgerConnector empty_io _ "Transport 0"
          "\<lparr>errorMessage = None, publicKey = None\<rparr>"]
  have thrown: "fst (getPublicKey
        (example_env\<lparr>getAddressAndPubKey := (\<lambda>p. Inr \<lparr>errorMessage = None, publicKey = None\<rparr>)\<rparr>)
        ''1'' (new_CasperLedgerConnector, empty_io))
     = Inl (Error ''connect error'')"
    by (simp add: example_env_def)
  from run hex thrown show ?thesis
    by (simp add: example_env_def)
qed

section \<open>Cancellation in the wallet connector\<close>

text \<open>
  C3. When the provider answers the signing request of \<^verbatim>\<open>signMessage\<close> or of \<^verbatim>\<open>sign\<close>
  with a response whose \<^verbatim>\<open>cancelled\<close> is true, the method returns \<^verbatim>\<open>undefined\<close>: it does
  not throw, and it produces no signature and no signed deploy.
\<close>

theorem CasperWalletConnector_cancelled_returns_undefined:
  "(options_getProvider E = Some p \<and> provider_signMessage p message k = Inr r \<and> cancelled r
      \<longrightarrow> fst (CasperWalletConnector_signMessage E message k (this, w)) = Inr None)
   \<and> (options_getProvider E = Some p \<and> provider_sign p (JSON_stringify E d) k = Inr r
        \<and> cancelled r
      \<longrightarrow> fst (CasperWalletConnector_sign E d k (this, w)) = Inr None)"
  unfolding wallet_defs
  by (simp add: async_defs)

theorem CasperWalletConnector_cancelled_returns_undefined_witness:
  "options_getProvider example_env = Some cancelling_provider
   \<and> provider_signMessage cancelling_provider ''hello'' ''01ab''
       = Inr \<lparr>cancelled = True, signatureHex = None, signature = None\<rparr>
   \<and> provider_sign cancelling_provider (JSON_stringify example_env JNull) ''01ab''
       = Inr \<lparr>cancelled = True, signatureHex = None, signature = None\<rparr>
   \<and> cancelled \<lparr>cancelled = True, signatureHex = None, signature = None\<rparr>
   \<and> fst (CasperWalletConnector_signMessage example_env ''hello'' ''01ab''
          (new_CasperWalletConnector example_env, empty_io)) = Inr None
   \<and> fst (CasperWalletConnector_sign example_env JNull ''01ab''
          (new_CasperWalletConnector example_env, empty_io)) = Inr None"
  using CasperWalletConnector_cancelled_returns_undefined
    [of example_env cancelling_provider "''hello''" "''01ab''"
        "\<lparr>cancelled = True, signatureHex = None, signature = None\<rparr>" _ _ JNull]
  by (simp add: example_env_def cancelling_provider_def)

section \<open>The state a connector keeps on its instance\<close>

text \<open>
  C6, as stated, fails: \<^verbatim>\<open>setAccountIndex\<close> stores the index on the connector instance,
  and the stored index survives the call: a later \<^verbatim>\<open>getAccountIndex\<close> returns it.
\<close>

theorem setAccountIndex_survives:
  "fst (snd (setAccountIndex ''5'' (new_CasperLedgerConnector, empty_io)))
     \<noteq> new_CasperLedgerConnector
   \<and> fst (getAccountIndex (new_CasperLedgerConnector, empty_io)) = Inr (Some ''0'')
   \<and> fst (getAccountIndex (snd (setAccountIndex ''5'' (new_CasperLedgerConnector, empty_io))))
       = Inr (Some ''5'')"
  by (simp add: ledger_defs async_defs new_CasperLedgerConnector_def)

lemma CasperLedgerConnector_connect_this:
  "fst (snd (CasperLedgerConnector_connect E (this, w))) = ledger_connected E this"
  unfolding ledger_defs ledger_connected_def
  by (cases "TransportWebUSB_create E") (simp_all add: async_defs)

lemma getPublicKey_this:
  "fst (snd (getPublicKey E i (this, w))) = ledger_connected E this"
  unfolding ledger_defs ledger_connected_def
  by (auto simp: async_defs split: sum.splits option.splits if_splits prod.splits)

lemma CasperLedgerConnector_sign_this:
  "fst (snd (CasperLedgerConnector_sign E d k tk oi (this, w))) = ledger_connected E this"
  unfolding ledger_defs ledger_connected_def
  by (auto simp: async_defs split: sum.splits option.splits if_splits prod.splits)

lemma CasperLedgerConnector_signMessage_this:
  "fst (snd (CasperLedgerConnector_signMessage E m k oi (this, w))) = ledger_connected E this"
  unfolding ledger_defs ledger_connected_def
  by (auto simp: async_defs split: sum.splits option.splits if_splits prod.splits)

lemma CasperWalletConnector_connect_this:
  "fst (snd (CasperWalletConnector_connect E (c, w))) = wallet_listening E c"
  unfolding wallet_defs wallet_listening_def
  by (auto simp: async_defs split: sum.splits option.splits prod.splits)

lemma CasperWalletConnector_sign_this:
  "fst (snd (CasperWalletConnector_sign E d k (c, w))) = wallet_provided E c"
  unfolding wallet_defs wallet_provided_def
  by (auto simp: async_defs split: sum.splits option.splits prod.splits)

lemma CasperWalletConnector_signMessage_this:
  "fst (snd (CasperWalletConnector_signMessage E m k (c, w))) = wallet_provided E c"
  unfolding wallet_defs wallet_provided_def
  by (auto simp: async_defs split: sum.splits option.splits prod.splits)

text \<open>
  C6, amended. Connector operations do store state on the connector instance, in memory,
  and it survives between calls. \<^verbatim>\<open>setAccountIndex(i)\<close> stores \<open>i\<close> in
  \<^verbatim>\<open>accountIndex\<close> and changes no other field. \<^verbatim>\<open>connect\<close>, \<^verbatim>\<open>getPublicKey\<close>,
  \<^verbatim>\<open>sign\<close> and \<^verbatim>\<open>signMessage\<close> of the Ledger connector store the created transport and
  the \<^verbatim>\<open>CasperApp\<close> on it when \<^verbatim>\<open>TransportWebUSB.create()\<close> succeeds, and change no
  other field (so a stored account index survives them). \<^verbatim>\<open>sign\<close> and \<^verbatim>\<open>signMessage\<close>
  of the wallet connector store the provider and set \<^verbatim>\<open>isReady\<close> when there is a
  provider, \<^verbatim>\<open>connect\<close> stores the event provider as well, and they change no other field.
\<close>

theorem connector_instance_state:
  "fst (snd (setAccountIndex i (this, w))) = this\<lparr>accountIndex := Some i\<rparr>
   \<and> fst (snd (CasperLedgerConnector_connect E (this, w))) = ledger_connected E this
   \<and> fst (snd (getPublicKey E i (this, w))) = ledger_connected E this
   \<and> fst (snd (CasperLedgerConnector_sign E d k tk oi (this, w))) = ledger_connected E this
   \<and> fst (snd (CasperLedgerConnector_signMessage E m k oi (this, w))) = ledger_connected E this
   \<and> accountIndex (ledger_connected E this) = accountIndex this
   \<and> fst (snd (CasperWalletConnector_connect E (c, w))) = wallet_listening E c
   \<and> fst (snd (CasperWalletConnector_sign E d k (c, w))) = wallet_provided E c
   \<and> fst (snd (CasperWalletConnector_signMessage E m k (c, w))) = wallet_provided E c"
  by (simp add: CasperLedgerConnector_connect_this getPublicKey_this
        CasperLedgerConnector_sign_this CasperLedgerConnector_signMessage_this
        CasperWalletConnector_connect_this CasperWalletConnector_sign_this
        CasperWalletConnector_signMessage_this setAccountIndex_def this_set_def
        ledger_connected_def split: sum.splits)

theorem connector_instance_state_witness:
  "fst (snd (setAccountIndex ''5'' (new_CasperLedgerConnector, empty_io)))
     = new_CasperLedgerConnector\<lparr>accountIndex := Some ''5''\<rparr>
   \<and> fst (snd (getPublicKey example_env ''5''
        (new_CasperLedgerConnector\<lparr>accountIndex := Some ''5''\<rparr>, empty_io)))
     = \<lparr>isReady = None, transport = Some (Transport 0),
        casperApp = Some (CasperApp (Transport 0)), accountIndex = Some ''5'',
        eventProvider = None\<rparr>
   \<and> fst (snd (CasperWalletConnector_connect example_env
        (new_CasperWalletConnector example_env, empty_io)))
     = \<lparr>wallet_isReady = True, wallet_provider = Some cancelling_provider,
        wallet_eventProvider = Some Window\<rparr>"
  using connector_instance_state
    [of "''5''" new_CasperLedgerConnector empty_io example_env JNull "''''" "''''" None "''''"
        "new_CasperWalletConnector example_env"]
    connector_instance_state
    [of "''5''" "new_CasperLedgerConnector\<lparr>accountIndex := Some ''5''\<rparr>" empty_io example_env
        JNull "''''" "''''" None "''''" "new_CasperWalletConnector example_env"]
  by (simp add: ledger_connected_def wallet_listening_def example_env_def
        new_CasperLedgerConnector_def new_CasperWalletConnector_def)

section \<open>Evaluating a method step by step\<close>

text \<open>
  What \<open>await_then\<close> does after each kind of step, on a state given as a pair. The
  answers of the external calls stay symbolic; a proof splits on them.
\<close>

lemma await_resolve: "await_then (resolve v) f s = f v s"
  by (simp add: await_then_def resolve_def)

lemma await_this_get: "await_then (this_get g) f (this, w) = f (g this) (this, w)"
  by (simp add: await_then_def this_get_def)

lemma await_this_set: "await_then (this_set g) f (this, w) = f () (g this, w)"
  by (simp add: await_then_def this_set_def)

lemma await_console_error:
  "await_then (console_error v) f (this, w) = f () (this, w\<lparr>console := console w @ [v]\<rparr>)"
  by (simp add: await_then_def console_error_def)

lemma await_external:
  "await_then (external c r) f (this, w) =
     (case r of
        Inl m \<Rightarrow> (Inl (Rejected m), this, w\<lparr>trace := trace w @ [c]\<rparr>)
      | Inr v \<Rightarrow> f v (this, w\<lparr>trace := trace w @ [c]\<rparr>))"
  by (cases r) (simp_all add: await_then_def external_def)

lemma await_unwrap:
  "await_then (unwrap r) f s = (case r of Inl m \<Rightarrow> (Inl (Rejected m), s) | Inr v \<Rightarrow> f v s)"
  by (cases r) (simp_all add: await_then_def unwrap_def)

lemma CasperLedgerConnector_connect_eq:
  "CasperLedgerConnector_connect E (this, w) =
     (case TransportWebUSB_create E of
        Inl m \<Rightarrow>
          (Inl (Error (getLedgerError E (Caught (Rejected m)) None)), this,
           w\<lparr>trace := trace w @ [TransportCreate]\<rparr>)
      | Inr t \<Rightarrow>
          (Inr (), this\<lparr>transport := Some t, casperApp := Some (CasperApp t)\<rparr>,
           w\<lparr>trace := trace w @ [TransportCreate, TransportOn ''disconnect'']\<rparr>))"
  by (cases "TransportWebUSB_create E")
     (simp_all add: CasperLedgerConnector_connect_def try_catch_def await_external
        await_this_set external_def throw_def)

lemma await_CasperLedgerConnector_getProvider:
  "await_then (CasperLedgerConnector_getProvider E) f (this, w) =
     (case TransportWebUSB_create E of
        Inl m \<Rightarrow>
          (Inl (Error (getLedgerError E (Caught (Rejected m)) None)), this,
           w\<lparr>trace := trace w @ [TransportCreate]\<rparr>)
      | Inr t \<Rightarrow>
          f (CasperApp t) (this\<lparr>transport := Some t, casperApp := Some (CasperApp t)\<rparr>,
             w\<lparr>trace := trace w @ [TransportCreate, TransportOn ''disconnect'']\<rparr>))"
  by (cases "TransportWebUSB_create E")
     (simp_all add: CasperLedgerConnector_getProvider_def CasperLedgerConnector_connect_eq
        await_then_def this_get_def resolve_def)

lemma await_this_transport_close:
  "await_then (this_transport_close E) f (this, w) =
     (case transport this of
        None \<Rightarrow> (Inl (TypeError ''Cannot read properties of undefined (reading 'close')''), this, w)
      | Some _ \<Rightarrow>
          (case transport_close E of
             Inl m \<Rightarrow> (Inl (Rejected m), this, w\<lparr>trace := trace w @ [TransportClose]\<rparr>)
           | Inr _ \<Rightarrow> f () (this, w\<lparr>trace := trace w @ [TransportClose]\<rparr>)))"
  by (cases "transport this"; cases "transport_close E")
     (simp_all add: this_transport_close_def await_then_def this_get_def throw_def external_def)

lemma await_CasperWalletConnector_getProvider:
  "await_then (CasperWalletConnector_getProvider E) f (c, w) =
     (case options_getProvider E of
        None \<Rightarrow> (Inl ConnectorNotFoundError, c, w)
      | Some p \<Rightarrow> f p (c\<lparr>wallet_provider := Some p, wallet_isReady := True\<rparr>, w))"
  by (cases "options_getProvider E")
     (simp_all add: CasperWalletConnector_getProvider_def await_then_def this_set_def
        throw_def resolve_def)

lemma await_CasperWalletConnector_getEventProvider:
  "await_then (CasperWalletConnector_getEventProvider E) f (c, w) =
     (case options_getEventProvider E of
        None \<Rightarrow> (Inl ConnectorNotFoundError, c, w)
      | Some ep \<Rightarrow> f ep (c\<lparr>wallet_eventProvider := Some ep\<rparr>, w))"
  by (cases "options_getEventProvider E")
     (simp_all add: CasperWalletConnector_getEventProvider_def await_then_def this_set_def
        throw_def resolve_def)

lemmas await_laws = await_resolve await_this_get await_this_set await_console_error
  await_external await_unwrap await_CasperLedgerConnector_getProvider
  await_this_transport_close await_CasperWalletConnector_getProvider
  await_CasperWalletConnector_getEventProvider resolve_def throw_def

section \<open>The calls of the connector operations\<close>

lemma at_most_once_prefix: "prefix cs ds \<Longrightarrow> at_most_once ds \<Longrightarrow> at_most_once cs"
  by (auto simp: at_most_once_def prefix_def)

lemma calls_CasperWalletConnector_connect:
  "prefix (calls (CasperWalletConnector_connect E) (c, w))
     [AddEventListener ''casper-wallet:activeKeyChanged'',
      AddEventListener ''casper-wallet:disconnected'',
      AddEventListener ''casper-wallet:connected'',
      AddEventListener ''casper-wallet:unlocked'',
      RequestConnection]"
  unfolding CasperWalletConnector_connect_def calls_def
  by (simp add: await_laws split: sum.splits option.splits)

lemma calls_CasperWalletConnector_disconnect:
  "prefix (calls (CasperWalletConnector_disconnect E) (c, w))
     [RemoveEventListener ''casper-wallet:activeKeyChanged'',
      RemoveEventListener ''casper-wallet:disconnected'',
      RemoveEventListener ''casper-wallet:connected'',
      RemoveEventListener ''casper-wallet:unlocked'',
      DisconnectFromSite]"
  unfolding CasperWalletConnector_disconnect_def calls_def
  by (simp add: await_laws split: sum.splits option.splits)

lemma calls_CasperWalletConnector_signMessage:
  "prefix (calls (CasperWalletConnector_signMessage E m k) (c, w)) [ProviderSignMessage m k]"
  unfolding CasperWalletConnector_signMessage_def calls_def
  by (simp add: await_laws split: sum.splits option.splits)

lemma calls_CasperWalletConnector_sign:
  "prefix (calls (CasperWalletConnector_sign E d k) (c, w))
     [ProviderSign (JSON_stringify E d) k]"
  unfolding CasperWalletConnector_sign_def calls_def
  by (simp add: await_laws split: sum.splits option.splits)

lemma calls_CasperLedgerConnector_connect:
  "prefix (calls (CasperLedgerConnector_connect E) (this, w))
     [TransportCreate, TransportOn ''disconnect'']"
  by (cases "TransportWebUSB_create E")
     (simp_all add: calls_def CasperLedgerConnector_connect_eq)

lemma calls_CasperLedgerConnector_disconnect:
  "calls CasperLedgerConnector_disconnect (this, w) = []"
  by (simp add: calls_def CasperLedgerConnector_disconnect_def resolve_def)

lemma calls_CasperLedgerConnector_signMessage:
  "prefix (calls (CasperLedgerConnector_signMessage E m k oi) (this, w))
     [TransportCreate, TransportOn ''disconnect'',
      AppSignMessage (getLedgerPath E (or_string (accountIndex this) (index_or_default oi)))
        (utf8 E (''Casper Message:\<newline>'' @ m)),
      TransportClose]"
  unfolding CasperLedgerConnector_signMessage_def calls_def
  by (simp add: await_laws split: sum.splits option.splits)

lemma calls_CasperLedgerConnector_sign:
  "prefix (calls (CasperLedgerConnector_sign E d k tk oi) (this, w))
     [TransportCreate, TransportOn ''disconnect'',
      AppSign (getLedgerPath E (or_string (accountIndex this) (index_or_default oi)))
        (deploy_bytes E d),
      TransportClose]"
  unfolding CasperLedgerConnector_sign_def calls_def deploy_bytes_def
  by (simp add: await_laws split: sum.splits option.splits)

text \<open>
  C7. One invocation of \<^verbatim>\<open>connect\<close>, \<^verbatim>\<open>sign\<close>, \<^verbatim>\<open>signMessage\<close> or \<^verbatim>\<open>disconnect\<close>, of
  the wallet connector or of the Ledger connector, issues its external calls in a fixed
  order: what it issues is a prefix of one fixed sequence (it stops at the first call
  that fails, or at a throw of its own). No call target occurs twice in it: each of
  \<^verbatim>\<open>requestConnection\<close>, \<^verbatim>\<open>provider.sign\<close>, \<^verbatim>\<open>casperApp.sign\<close>,
  \<^verbatim>\<open>TransportWebUSB.create\<close> and the others is issued at most once, whatever the calls
  answer, so a failed call is never attempted again.
\<close>

theorem connector_calls_fixed_and_at_most_once:
  "prefix (calls (CasperWalletConnector_connect E) (c, w))
     [AddEventListener ''casper-wallet:activeKeyChanged'',
      AddEventListener ''casper-wallet:disconnected'',
      AddEventListener ''casper-wallet:connected'',
      AddEventListener ''casper-wallet:unlocked'',
      RequestConnection]
   \<and> prefix (calls (CasperWalletConnector_disconnect E) (c, w))
     [RemoveEventListener ''casper-wallet:activeKeyChanged'',
      RemoveEventListener ''casper-wallet:disconnected'',
      RemoveEventListener ''casper-wallet:connected'',
      RemoveEventListener ''casper-wallet:unlocked'',
      DisconnectFromSite]
   \<and> prefix (calls (CasperWalletConnector_signMessage E m k) (c, w)) [ProviderSignMessage m k]
   \<and> prefix (calls (CasperWalletConnector_sign E d k) (c, w))
        [ProviderSign (JSON_stringify E d) k]
   \<and> prefix (calls (CasperLedgerConnector_connect E) (this, w))
        [TransportCreate, TransportOn ''disconnect'']
   \<and> calls CasperLedgerConnector_disconnect (this, w) = []
   \<and> prefix (calls (CasperLedgerConnector_signMessage E m k oi) (this, w))
        [TransportCreate, TransportOn ''disconnect'',
         AppSignMessage (getLedgerPath E (or_string (accountIndex this) (index_or_default oi)))
           (utf8 E (''Casper Message:\<newline>'' @ m)),
         TransportClose]
   \<and> prefix (calls (CasperLedgerConnector_sign E d k tk oi) (this, w))
        [TransportCreate, TransportOn ''disconnect'',
         AppSign (getLedgerPath E (or_string (accountIndex this) (index_or_default oi)))
           (deploy_bytes E d),
         TransportClose]
   \<and> at_most_once (calls (CasperWalletConnector_connect E) (c, w))
   \<and> at_most_once (calls (CasperWalletConnector_disconnect E) (c, w))
   \<and> at_most_once (calls (CasperWalletConnector_signMessage E m k) (c, w))
   \<and> at_most_once (calls (CasperWalletConnector_sign E d k) (c, w))
   \<and> at_most_once (calls (CasperLedgerConnector_connect E) (this, w))
   \<and> at_most_once (calls CasperLedgerConnector_disconnect (this, w))
   \<and> at_most_once (calls (CasperLedgerConnector_signMessage E m k oi) (this, w))
   \<and> at_most_once (calls (CasperLedgerConnector_sign E d k tk oi) (this, w))"
proof -
  have "at_most_once (calls (CasperWalletConnector_connect E) (c, w))"
    by (rule at_most_once_prefix [OF calls_CasperWalletConnector_connect])
       (simp add: at_most_once_def)
  moreover have "at_most_once (calls (CasperWalletConnector_disconnect E) (c, w))"
    by (rule at_most_once_prefix [OF calls_CasperWalletConnector_disconnect])
       (simp add: at_most_once_def)
  moreover have "at_most_once (calls (CasperWalletConnector_signMessage E m k) (c, w))"
    by (rule at_most_once_prefix [OF calls_CasperWalletConnector_signMessage])
       (simp add: at_most_once_def)
  moreover have "at_most_once (calls (CasperWalletConnector_sign E d k) (c, w))"
    by (rule at_most_once_prefix [OF calls_CasperWalletConnector_sign])
       (simp add: at_most_once_def)
  moreover have "at_most_once (calls (CasperLedgerConnector_connect E) (this, w))"
    by (rule at_most_once_prefix [OF calls_CasperLedgerConnector_connect])
       (simp add: at_most_once_def)
  moreover have "at_most_once (calls CasperLedgerConnector_disconnect (this, w))"
    by (simp add: calls_CasperLedgerConnector_disconnect at_most_once_def)
  moreover have "at_most_once (calls (CasperLedgerConnector_signMessage E m k oi) (this, w))"
    by (rule at_most_once_prefix [OF calls_CasperLedgerConnector_signMessage])
       (simp add: at_most_once_def)
  moreover have "at_most_once (calls (CasperLedgerConnector_sign E d k tk oi) (this, w))"
    by (rule at_most_once_prefix [OF calls_CasperLedgerConnector_sign])
       (simp add: at_most_once_def)
  ultimately show ?thesis
    using calls_CasperWalletConnector_connect [of E c w]
      calls_CasperWalletConnector_disconnect [of E c w]
      calls_CasperWalletConnector_signMessage [of E m k c w]
      calls_CasperWalletConnector_sign [of E d k c w]
      calls_CasperLedgerConnector_connect [of E this w]
      calls_CasperLedgerConnector_disconnect [of this w]
      calls_CasperLedgerConnector_signMessage [of E m k oi this w]
      calls_CasperLedgerConnector_sign [of E d k tk oi this w]
    by blast
qed

text \<open>
  Two runs of \<^verbatim>\<open>sign\<close> of the Ledger connector: one in which every call succeeds, and
  one in which \<^verbatim>\<open>TransportWebUSB.create()\<close> fails and nothing follows it.
\<close>

theorem connector_calls_fixed_and_at_most_once_witness:
  "calls (CasperLedgerConnector_sign example_env JNull ''01ab'' [] None)
      (new_CasperLedgerConnector, empty_io)
     = [TransportCreate, TransportOn ''disconnect'', AppSign ''m/44/506/0/0/0'' [0x00],
        TransportClose]
   \<and> at_most_once (calls (CasperLedgerConnector_sign example_env JNull ''01ab'' [] None)
        (new_CasperLedgerConnector, empty_io))
   \<and> calls (CasperLedgerConnector_sign
        (example_env\<lparr>TransportWebUSB_create := Inl ''no device''\<rparr>) JNull ''01ab'' [] None)
      (new_CasperLedgerConnector, empty_io)
     = [TransportCreate]"
proof -
  have "calls (CasperLedgerConnector_sign example_env JNull ''01ab'' [] None)
      (new_CasperLedgerConnector, empty_io)
     = [TransportCreate, TransportOn ''disconnect'', AppSign ''m/44/506/0/0/0'' [0x00],
        TransportClose]"
    unfolding ledger_defs calls_def
    by (simp add: async_defs example_env_def new_CasperLedgerConnector_def empty_io_def)
  moreover have "calls (CasperLedgerConnector_sign
        (example_env\<lparr>TransportWebUSB_create := Inl ''no device''\<rparr>) JNull ''01ab'' [] None)
      (new_CasperLedgerConnector, empty_io)
     = [TransportCreate]"
    unfolding ledger_defs calls_def
    by (simp add: async_defs example_env_def new_CasperLedgerConnector_def empty_io_def)
  moreover have "at_most_once (calls (CasperLedgerConnector_sign example_env JNull ''01ab'' [] None)
        (new_CasperLedgerConnector, empty_io))"
    using connector_calls_fixed_and_at_most_once
      [of example_env "new_CasperWalletConnector example_env" empty_io "[]" "''01ab''" JNull
          new_CasperLedgerConnector None "[]"]
    by blast
  ultimately show ?thesis
    by blast
qed

section \<open>The account actions\<close>

lemma getPublicKey_error:
  "getPublicKey E i (this, w) = (Inl e, s') \<Longrightarrow> e \<noteq> ConnectorNotLedgerError"
  unfolding ledger_defs
  by (auto simp: async_defs settle_Inl split: sum.splits option.splits if_splits prod.splits)

lemma connector_getPublicKey_error:
  "connector_getPublicKey E i (c, w) = (Inl e, s') \<Longrightarrow> e \<noteq> ConnectorNotLedgerError"
  by (cases c)
     (auto simp: connector_getPublicKey_def as_ledger_def split: prod.splits
        dest: getPublicKey_error)

lemma connector_setAccountIndex_error:
  "connector_setAccountIndex i (c, w) = (Inl e, s') \<Longrightarrow> e \<noteq> ConnectorNotLedgerError"
  by (cases c)
     (auto simp: connector_setAccountIndex_def as_ledger_def setAccountIndex_def this_set_def
        split: prod.splits)

lemmas action_steps = action_defs resolve_def throw_def await_then_def try_catch_def

text \<open>
  C8. \<^verbatim>\<open>setLedgerAccountIndex\<close> and \<^verbatim>\<open>getLedgerPublicKey\<close> throw
  \<^verbatim>\<open>ConnectorNotLedgerError\<close> if and only if the client has a connector whose \<^verbatim>\<open>id\<close> is
  not \<^verbatim>\<open>'ledger'\<close>. When the client has no connector, \<^verbatim>\<open>getLedgerPublicKey\<close> resolves
  to \<^verbatim>\<open>undefined\<close> and \<^verbatim>\<open>setLedgerAccountIndex\<close> fails with a TypeError.
\<close>

theorem ConnectorNotLedgerError_iff:
  "(fst (setLedgerAccountIndex E i w) = Inl ConnectorNotLedgerError
      \<longleftrightarrow> (\<exists>a. connector (state w) = Some a \<and> connector_id (heap w a) \<noteq> ''ledger''))
   \<and> (fst (getLedgerPublicKey E i w) = Inl ConnectorNotLedgerError
      \<longleftrightarrow> (\<exists>a. connector (state w) = Some a \<and> connector_id (heap w a) \<noteq> ''ledger''))
   \<and> (connector (state w) = None \<longrightarrow>
        fst (getLedgerPublicKey E i w) = Inr None
        \<and> (\<exists>m. fst (setLedgerAccountIndex E i w) = Inl (TypeError m)))"
proof (intro conjI)
  show "fst (setLedgerAccountIndex E i w) = Inl ConnectorNotLedgerError
      \<longleftrightarrow> (\<exists>a. connector (state w) = Some a \<and> connector_id (heap w a) \<noteq> ''ledger'')"
  proof (cases "connector (state w)")
    case None
    then show ?thesis
      by (simp add: setLedgerAccountIndex_def action_steps)
  next
    case (Some a)
    show ?thesis
    proof (cases "connector_id (heap w a) = ''ledger''")
      case False
      with Some show ?thesis
        by (simp add: setLedgerAccountIndex_def action_steps)
    next
      case True
      with Some show ?thesis
        by (auto simp add: setLedgerAccountIndex_def action_steps
              split: prod.splits sum.splits
              dest: connector_getPublicKey_error connector_setAccountIndex_error)
    qed
  qed
next
  show "fst (getLedgerPublicKey E i w) = Inl ConnectorNotLedgerError
      \<longleftrightarrow> (\<exists>a. connector (state w) = Some a \<and> connector_id (heap w a) \<noteq> ''ledger'')"
  proof (cases "connector (state w)")
    case None
    then show ?thesis
      by (simp add: getLedgerPublicKey_def action_steps)
  next
    case (Some a)
    show ?thesis
    proof (cases "connector_id (heap w a) = ''ledger''")
      case False
      with Some show ?thesis
        by (simp add: getLedgerPublicKey_def action_steps)
    next
      case True
      with Some show ?thesis
        by (auto simp add: getLedgerPublicKey_def action_steps
              split: prod.splits sum.splits dest: connector_getPublicKey_error)
    qed
  qed
next
  show "connector (state w) = None \<longrightarrow>
        fst (getLedgerPublicKey E i w) = Inr None
        \<and> (\<exists>m. fst (setLedgerAccountIndex E i w) = Inl (TypeError m))"
    by (simp add: getLedgerPublicKey_def setLedgerAccountIndex_def action_steps)
qed

text \<open>
  A client on the wallet connector, on the Ledger connector, and on no connector.
\<close>

theorem ConnectorNotLedgerError_iff_witness:
  "connector (state (example_world (Wallet (new_CasperWalletConnector example_env)))) = Some 0
   \<and> connector_id (heap (example_world (Wallet (new_CasperWalletConnector example_env))) 0)
       \<noteq> ''ledger''
   \<and> fst (setLedgerAccountIndex example_env (Some ''1'')
        (example_world (Wallet (new_CasperWalletConnector example_env))))
       = Inl ConnectorNotLedgerError
   \<and> fst (getLedgerPublicKey example_env (Some ''1'')
        (example_world (Wallet (new_CasperWalletConnector example_env))))
       = Inl ConnectorNotLedgerError
   \<and> fst (setLedgerAccountIndex example_env (Some ''1'')
        (example_world (Ledger new_CasperLedgerConnector)))
       \<noteq> Inl ConnectorNotLedgerError
   \<and> fst (getLedgerPublicKey example_env (Some ''1'')
        (example_world (Ledger new_CasperLedgerConnector)))
       \<noteq> Inl ConnectorNotLedgerError
   \<and> connector (state unconnected_world) = None
   \<and> fst (getLedgerPublicKey example_env (Some ''1'') unconnected_world) = Inr None
   \<and> fst (setLedgerAccountIndex example_env (Some ''1'') unconnected_world)
       \<noteq> Inl ConnectorNotLedgerError"
  using ConnectorNotLedgerError_iff
      [of example_env "Some ''1''" "example_world (Wallet (new_CasperWalletConnector example_env))"]
    ConnectorNotLedgerError_iff
      [of example_env "Some ''1''" "example_world (Ledger new_CasperLedgerConnector)"]
    ConnectorNotLedgerError_iff [of example_env "Some ''1''" unconnected_world]
  by (simp add: example_world_def unconnected_world_def)

text \<open>
  C5. When the client has a connector and its \<^verbatim>\<open>disconnect()\<close> succeeds (and also when
  the client has no connector, so that nothing is called), the \<^verbatim>\<open>disconnect\<close> action
  resolves and the state of the client is the old state with \<^verbatim>\<open>status\<close> set to
  \<^verbatim>\<open>DISCONNECTED\<close> and \<^verbatim>\<open>data.activeKey\<close> set to \<^verbatim>\<open>undefined\<close>: the connector
  reference, \<^verbatim>\<open>data.ledgerAccountIndex\<close> and every other field are unchanged.
\<close>

theorem disconnect_frame:
  "(connector (state w) = None
      \<or> (\<exists>a. connector (state w) = Some a
            \<and> fst (connector_disconnect E (heap w a, outside w)) = Inr ()))
   \<longrightarrow> fst (disconnect E w) = Inr ()
       \<and> state (snd (disconnect E w))
           = (state w)\<lparr>status := DISCONNECTED, data := (data (state w))\<lparr>activeKey := None\<rparr>\<rparr>
       \<and> status (state (snd (disconnect E w))) = DISCONNECTED
       \<and> activeKey (data (state (snd (disconnect E w)))) = None
       \<and> connector (state (snd (disconnect E w))) = connector (state w)
       \<and> ledgerAccountIndex (data (state (snd (disconnect E w))))
           = ledgerAccountIndex (data (state w))
       \<and> StateData.more (data (state (snd (disconnect E w)))) = StateData.more (data (state w))
       \<and> StateParams.more (state (snd (disconnect E w))) = StateParams.more (state w)"
  by (auto simp add: disconnect_def action_steps split: prod.splits sum.splits option.splits)

theorem disconnect_frame_witness:
  "connector (state (example_world (Wallet (new_CasperWalletConnector example_env)))) = Some 0
   \<and> fst (connector_disconnect example_env
        (heap (example_world (Wallet (new_CasperWalletConnector example_env))) 0,
         outside (example_world (Wallet (new_CasperWalletConnector example_env))))) = Inr ()
   \<and> fst (disconnect example_env
        (example_world (Wallet (new_CasperWalletConnector example_env)))) = Inr ()
   \<and> state (snd (disconnect example_env
        (example_world (Wallet (new_CasperWalletConnector example_env)))))
       = \<lparr>status = DISCONNECTED, connector = Some 0,
          data = \<lparr>activeKey = None, ledgerAccountIndex = Some ''3''\<rparr>\<rparr>"
proof -
  have ok: "fst (connector_disconnect example_env
        (heap (example_world (Wallet (new_CasperWalletConnector example_env))) 0,
         outside (example_world (Wallet (new_CasperWalletConnector example_env))))) = Inr ()"
    by (simp add: connector_disconnect_def as_wallet_def CasperWalletConnector_disconnect_def
          await_laws external_def example_world_def example_env_def cancelling_provider_def)
  with disconnect_frame
      [of "example_world (Wallet (new_CasperWalletConnector example_env))" example_env]
  show ?thesis
    by (simp add: example_world_def)
qed

text \<open>
  C4. The state of the client refers to at most one connector, and \<^verbatim>\<open>disconnect\<close> and
  \<^verbatim>\<open>setLedgerAccountIndex\<close> keep it so: each replaces the state by an update of the old
  state that leaves the connector reference as it was.
\<close>

theorem one_active_connector_preserved:
  "card (active_connectors w) \<le> 1
   \<and> active_connectors (snd (disconnect E w)) = active_connectors w
   \<and> active_connectors (snd (setLedgerAccountIndex E i w)) = active_connectors w"
  by (cases "connector (state w)")
     (auto simp add: active_connectors_def disconnect_def setLedgerAccountIndex_def action_steps
        split: prod.splits sum.splits option.splits if_splits)

theorem one_active_connector_preserved_witness:
  "active_connectors (example_world (Ledger new_CasperLedgerConnector)) = {0}
   \<and> active_connectors (snd (disconnect example_env
        (example_world (Ledger new_CasperLedgerConnector)))) = {0}
   \<and> active_connectors (snd (setLedgerAccountIndex example_env (Some ''1'')
        (example_world (Ledger new_CasperLedgerConnector)))) = {0}"
  using one_active_connector_preserved
    [of "example_world (Ledger new_CasperLedgerConnector)" example_env "Some ''1''"]
  by (simp add: active_connectors_def example_world_def)

section \<open>Errors in the account actions\<close>

text \<open>
  \<^verbatim>\<open>setLedgerAccountIndex\<close> and \<^verbatim>\<open>getLedgerPublicKey\<close> log what they catch and throw it
  again: when either rejects, the error it rejects with is the last thing on the console.
\<close>

lemma setLedgerAccountIndex_logs_and_rethrows:
  "fst (setLedgerAccountIndex E i w) = Inl e \<Longrightarrow>
     \<exists>logged. console (outside (snd (setLedgerAccountIndex E i w))) = logged @ [LogError e]"
  by (auto simp add: setLedgerAccountIndex_def action_steps
        split: prod.splits sum.splits option.splits if_splits)

lemma getLedgerPublicKey_logs_and_rethrows:
  "fst (getLedgerPublicKey E i w) = Inl e \<Longrightarrow>
     \<exists>logged. console (outside (snd (getLedgerPublicKey E i w))) = logged @ [LogError e]"
  by (auto simp add: getLedgerPublicKey_def action_steps
        split: prod.splits sum.splits option.splits if_splits)

text \<open>
  A failure of the connector's \<^verbatim>\<open>getPublicKey\<close> reaches the caller of either action.
\<close>

lemma ledger_actions_rethrow_getPublicKey:
  "connector (state w) = Some a \<Longrightarrow> connector_id (heap w a) = ''ledger'' \<Longrightarrow>
   fst (connector_getPublicKey E (index_or_default i) (heap w a, outside w)) = Inl e \<Longrightarrow>
     fst (setLedgerAccountIndex E i w) = Inl e \<and> fst (getLedgerPublicKey E i w) = Inl e"
  by (auto simp add: setLedgerAccountIndex_def getLedgerPublicKey_def action_steps
        split: prod.splits sum.splits)

text \<open>\<^verbatim>\<open>disconnect\<close> never rejects: its \<^verbatim>\<open>catch\<close> logs and does not throw.\<close>

lemma disconnect_always_resolves: "fst (disconnect E w) = Inr ()"
  by (auto simp add: disconnect_def action_steps split: prod.splits sum.splits option.splits)

text \<open>
  C1 at a failing input: the client is on the wallet connector and the browser has no
  wallet extension, so the connector's \<^verbatim>\<open>disconnect()\<close> rejects with
  \<^verbatim>\<open>ConnectorNotFoundError\<close>. The \<^verbatim>\<open>disconnect\<close> action logs the error and resolves: the
  error does not reach the caller, and the state of the client stays as it was.
\<close>

theorem disconnect_swallows_connector_error:
  "fst (connector_disconnect no_extension_env
         (Wallet (new_CasperWalletConnector no_extension_env), empty_io))
     = Inl ConnectorNotFoundError
   \<and> fst (disconnect no_extension_env
         (example_world (Wallet (new_CasperWalletConnector no_extension_env)))) = Inr ()
   \<and> console (outside (snd (disconnect no_extension_env
         (example_world (Wallet (new_CasperWalletConnector no_extension_env))))))
     = [LogError ConnectorNotFoundError]
   \<and> state (snd (disconnect no_extension_env
         (example_world (Wallet (new_CasperWalletConnector no_extension_env)))))
     = state (example_world (Wallet (new_CasperWalletConnector no_extension_env)))"
  by (simp add: disconnect_def connector_disconnect_def as_wallet_def action_steps
        CasperWalletConnector_disconnect_def CasperWalletConnector_getProvider_def
        no_extension_env_def example_env_def example_world_def empty_io_def)

section \<open>The validation of useSign\<close>

text \<open>
  C2, as stated, fails: a call with an empty \<^verbatim>\<open>signingPublicKey\<close> and no deploy is
  rejected with the deploy's message, not with the key's (the first case of the test).
\<close>

theorem useSign_sign_empty_key_without_deploy:
  "useSign_sign (\<lambda>p. Inr ())
      \<lparr>deploy = None, signingPublicKey = Some [], targetPublicKeyHex = Some []\<rparr>
     = Inl (Error ''Deploy must be a non-empty'')
   \<and> useSign_sign (\<lambda>p. Inr ())
      \<lparr>deploy = None, signingPublicKey = Some [], targetPublicKeyHex = Some []\<rparr>
     \<noteq> Inl (Error ''signingPublicKey must be a non-empty string'')"
  by (simp add: useSign_sign_def)

text \<open>
  C2, amended. The sign operation of \<^verbatim>\<open>useSign\<close> rejects empty fields in order: with an
  empty deploy it throws \<^verbatim>\<open>'Deploy must be a non-empty'\<close>; with a deploy and an empty
  \<^verbatim>\<open>signingPublicKey\<close> it throws \<^verbatim>\<open>'signingPublicKey must be a non-empty string'\<close>; with a
  deploy, a \<^verbatim>\<open>signingPublicKey\<close> and an empty \<^verbatim>\<open>targetPublicKeyHex\<close> it throws
  \<^verbatim>\<open>'targetPublicKeyHex must be a non-empty string'\<close>.
\<close>

theorem useSign_sign_rejects_empty_fields:
  "(\<not> truthy_json (deploy p) \<longrightarrow>
      useSign_sign act p = Inl (Error ''Deploy must be a non-empty''))
   \<and> (truthy_json (deploy p) \<and> \<not> truthy_string (signingPublicKey p) \<longrightarrow>
        useSign_sign act p = Inl (Error ''signingPublicKey must be a non-empty string''))
   \<and> (truthy_json (deploy p) \<and> truthy_string (signingPublicKey p)
        \<and> \<not> truthy_string (targetPublicKeyHex p) \<longrightarrow>
        useSign_sign act p = Inl (Error ''targetPublicKeyHex must be a non-empty string''))"
  by (simp add: useSign_sign_def)

text \<open>The three failing calls of the test.\<close>

theorem useSign_sign_rejects_empty_fields_witness:
  "\<not> truthy_json (deploy \<lparr>deploy = None, signingPublicKey = Some [], targetPublicKeyHex = Some []\<rparr>)
   \<and> useSign_sign (\<lambda>p. Inr ())
        \<lparr>deploy = None, signingPublicKey = Some [], targetPublicKeyHex = Some []\<rparr>
       = Inl (Error ''Deploy must be a non-empty'')
   \<and> truthy_json (Some (JObj []))
   \<and> \<not> truthy_string None
   \<and> useSign_sign (\<lambda>p. Inr ())
        \<lparr>deploy = Some (JObj []), signingPublicKey = None, targetPublicKeyHex = Some ''abc''\<rparr>
       = Inl (Error ''signingPublicKey must be a non-empty string'')
   \<and> truthy_string (Some ''abc'')
   \<and> useSign_sign (\<lambda>p. Inr ())
        \<lparr>deploy = Some (JObj []), signingPublicKey = Some ''abc'', targetPublicKeyHex = None\<rparr>
       = Inl (Error ''targetPublicKeyHex must be a non-empty string'')"
  using useSign_sign_rejects_empty_fields
      [of "\<lparr>deploy = None, signingPublicKey = Some [], targetPublicKeyHex = Some []\<rparr>"
          "\<lambda>p. Inr ()"]
    useSign_sign_rejects_empty_fields
      [of "\<lparr>deploy = Some (JObj []), signingPublicKey = None, targetPublicKeyHex = Some ''abc''\<rparr>"
          "\<lambda>p. Inr ()"]
    useSign_sign_rejects_empty_fields
      [of "\<lparr>deploy = Some (JObj []), signingPublicKey = Some ''abc'', targetPublicKeyHex = None\<rparr>"
          "\<lambda>p. Inr ()"]
  by simp

end
